theory Spec2Isabelle
  imports Main
begin

section \<open>Data model (types.ts and the SDK's Part)\<close>

text \<open>
  A \<open>Part\<close> of the SDK is an object with optional fields. The fields read by this
  repository are \<open>text\<close>, \<open>thought\<close>, \<open>executableCode\<close>, \<open>codeExecutionResult\<close> and
  \<open>inlineData\<close>. An absent (undefined) field is \<open>None\<close>. The field \<open>thought\<close> is
  declared boolean in \<open>ExtendedPart\<close>, and \<open>renderPart\<close> also tests
  \<open>typeof part.thought === 'string'\<close>, so it is modelled with three shapes.
  Strings are lists of 8-bit characters.
\<close>

datatype js_thought = Absent | Flag bool | Str string

record executable_code =
  ec_language :: string
  ec_code :: string

record code_execution_result =
  r_outcome :: string
  r_output :: string

record inline_data =
  d_mimeType :: string
  d_data :: string

record part =
  p_text :: "string option"
  p_thought :: js_thought
  p_executableCode :: "executable_code option"
  p_codeExecutionResult :: "code_execution_result option"
  p_inlineData :: "inline_data option"

datatype role = User | Model

record chat_message =
  m_id :: string
  m_role :: role
  m_parts :: "part list"
  m_timestamp :: nat

text \<open>The object literal \<open>{}\<close>, and the one-field literals used in the source.\<close>

definition empty_part :: part where
  "empty_part = \<lparr>p_text = None, p_thought = Absent, p_executableCode = None,
     p_codeExecutionResult = None, p_inlineData = None\<rparr>"

definition text_part :: "string \<Rightarrow> part" where
  "text_part s = empty_part\<lparr>p_text := Some s\<rparr>"

definition thought_part :: "js_thought \<Rightarrow> part" where
  "thought_part t = empty_part\<lparr>p_thought := t\<rparr>"

definition code_part :: "string \<Rightarrow> string \<Rightarrow> part" where
  "code_part l c = empty_part\<lparr>p_executableCode := Some \<lparr>ec_language = l, ec_code = c\<rparr>\<rparr>"

definition result_part :: "string \<Rightarrow> string \<Rightarrow> part" where
  "result_part oc out =
     empty_part\<lparr>p_codeExecutionResult := Some \<lparr>r_outcome = oc, r_output = out\<rparr>\<rparr>"

definition image_part :: "string \<Rightarrow> string \<Rightarrow> part" where
  "image_part mt d = empty_part\<lparr>p_inlineData := Some \<lparr>d_mimeType = mt, d_data = d\<rparr>\<rparr>"

section \<open>JavaScript truthiness and string helpers\<close>

text \<open>
  \<open>if (x)\<close> on an optional string is false for undefined and for the empty string; on a
  boolean-or-string it is false for undefined, \<open>false\<close> and the empty string; on an
  optional object it is false only for undefined.
\<close>

definition truthy_text :: "string option \<Rightarrow> bool" where
  "truthy_text t = (case t of None \<Rightarrow> False | Some s \<Rightarrow> s \<noteq> [])"

fun truthy_thought :: "js_thought \<Rightarrow> bool" where
  "truthy_thought Absent = False"
| "truthy_thought (Flag b) = b"
| "truthy_thought (Str s) = (s \<noteq> [])"

definition truthy_obj :: "'a option \<Rightarrow> bool" where
  "truthy_obj x = (x \<noteq> None)"

text \<open>\<open>t || ""\<close> on an optional string.\<close>

definition or_empty :: "string option \<Rightarrow> string" where
  "or_empty t = (case t of None \<Rightarrow> [] | Some s \<Rightarrow> s)"

text \<open>
  \<open>String.prototype.trim\<close> on 8-bit characters: tab, line feed, vertical tab, form
  feed, carriage return, space and no-break space are removed at both ends.
\<close>

definition is_js_space :: "char \<Rightarrow> bool" where
  "is_js_space c = (c \<in> set [CHR 0x09, CHR 0x0A, CHR 0x0B, CHR 0x0C, CHR 0x0D, CHR 0x20, CHR 0xA0])"

definition trim :: "string \<Rightarrow> string" where
  "trim s = rev (dropWhile is_js_space (rev (dropWhile is_js_space s)))"

section \<open>renderPart: the classification of one part (ChatMessageItem.tsx)\<close>

text \<open>
  \<open>renderPart\<close> returns one of five JSX shapes or \<open>null\<close>. The model keeps the branch
  taken and the content placed in the element; the title of a thought panel and the
  styling are not modelled.
\<close>

datatype block =
    Thought string
  | ExecutableCode string string
  | CodeExecutionResult string string
  | Text string
  | InlineImage string string
  | Unknown

definition isThought :: "part \<Rightarrow> bool" where
  "isThought p = (p_thought p = Flag True \<or> (case p_thought p of Str _ \<Rightarrow> True | _ \<Rightarrow> False))"

definition thoughtContent :: "part \<Rightarrow> string" where
  "thoughtContent p =
     trim (case p_thought p of Str s \<Rightarrow> s | _ \<Rightarrow> or_empty (p_text p))"

definition renderPart :: "part \<Rightarrow> block" where
  "renderPart p =
    (if isThought p then Thought (thoughtContent p)
     else (case p_executableCode p of
       Some ec \<Rightarrow> ExecutableCode (ec_language ec) (ec_code ec)
     | None \<Rightarrow>
        (case p_codeExecutionResult p of
           Some r \<Rightarrow> CodeExecutionResult (r_outcome r) (r_output r)
         | None \<Rightarrow>
            (if truthy_text (p_text p) then Text (or_empty (p_text p))
             else (case p_inlineData p of
                Some d \<Rightarrow> InlineImage (d_mimeType d) (d_data d)
              | None \<Rightarrow> Unknown)))))"

section \<open>The accumulation loop of handleSend (ChatInterface)\<close>

definition isSameType :: "part \<Rightarrow> part \<Rightarrow> bool" where
  "isSameType lastPart incoming =
     ((truthy_text (p_text incoming) \<and> truthy_text (p_text lastPart)
        \<and> \<not> truthy_thought (p_thought incoming) \<and> \<not> truthy_thought (p_thought lastPart)
        \<and> \<not> truthy_obj (p_executableCode incoming)
        \<and> \<not> truthy_obj (p_executableCode lastPart))
      \<or> (truthy_thought (p_thought incoming) \<and> truthy_thought (p_thought lastPart)))"

text \<open>
  One iteration of \<open>for (const incoming of incomingParts)\<close>. On an empty array
  \<open>lastPart\<close> is undefined, \<open>isSameType\<close> is falsy and the part is pushed.
\<close>

definition merge_part :: "part list \<Rightarrow> part \<Rightarrow> part list" where
  "merge_part accumulatedParts incoming =
    (if accumulatedParts = [] then [incoming]
     else
       let lastPart = last accumulatedParts in
       if isSameType lastPart incoming then
         (if truthy_text (p_text incoming)
          then butlast accumulatedParts @
                 [lastPart\<lparr>p_text := Some (or_empty (p_text lastPart) @ or_empty (p_text incoming))\<rparr>]
          else accumulatedParts)
       else accumulatedParts @ [incoming])"

definition accumulate :: "part list \<Rightarrow> part list \<Rightarrow> part list" where
  "accumulate accumulatedParts incomingParts = foldl merge_part accumulatedParts incomingParts"

section \<open>The message store update of handleSend\<close>

text \<open>
  The updater passed to \<open>setMessages\<close> after each chunk; \<open>now\<close> is the reading of
  \<open>Date.now()\<close> taken inside it. \<open>JSON.parse(JSON.stringify(...))\<close> copies the parts, so
  the stored list is the value of \<open>accumulatedParts\<close> at that moment.
\<close>

definition applyTurn :: "chat_message list \<Rightarrow> string \<Rightarrow> part list \<Rightarrow> nat \<Rightarrow> chat_message list" where
  "applyTurn prev modelMessageId accumulatedParts now =
    (if prev = [] then
       [\<lparr>m_id = modelMessageId, m_role = Model, m_parts = accumulatedParts, m_timestamp = now\<rparr>]
     else
       let lastMsg = last prev;
           updatedModelMessage =
             \<lparr>m_id = modelMessageId, m_role = Model, m_parts = accumulatedParts,
              m_timestamp = (if m_id lastMsg = modelMessageId then m_timestamp lastMsg else now)\<rparr>
       in if m_id lastMsg = modelMessageId then butlast prev @ [updatedModelMessage]
          else prev @ [updatedModelMessage])"

text \<open>
  A chunk of the stream, as the loop sees it: \<open>chunk.candidates?.[0]?.content?.parts\<close>
  (undefined is \<open>None\<close>) and the clock reading of its store update. The loop state is
  the pair of \<open>accumulatedParts\<close> and the messages.
\<close>

type_synonym chunk = "part list option \<times> nat"

definition process_chunk ::
  "string \<Rightarrow> part list \<times> chat_message list \<Rightarrow> chunk \<Rightarrow> part list \<times> chat_message list" where
  "process_chunk modelMessageId st ch =
    (case fst ch of
       None \<Rightarrow> st
     | Some incomingParts \<Rightarrow>
         let accumulatedParts = accumulate (fst st) incomingParts
         in (accumulatedParts, applyTurn (snd st) modelMessageId accumulatedParts (snd ch)))"

section \<open>The data-URL pattern\<close>

text \<open>
  \<open>image.match(/^data:(.+);base64,(.+)$/)\<close>. The dot matches any character except a
  line terminator, both groups are non-empty, the pattern is anchored at both ends, and
  the first group is greedy: it extends to the last place where \<open>;base64,\<close> is followed
  by at least one character. The result is the pair of the two groups.
\<close>

definition is_line_terminator :: "char \<Rightarrow> bool" where
  "is_line_terminator c = (c = CHR 0x0A \<or> c = CHR 0x0D)"

definition data_url_match :: "string \<Rightarrow> (string \<times> string) option" where
  "data_url_match s =
    (if take 5 s \<noteq> ''data:'' \<or> list_ex is_line_terminator s then None
     else
       let rest = drop 5 s;
           ks = filter (\<lambda>k. take 8 (drop k rest) = '';base64,'' \<and> k + 8 < length rest)
                  (rev [1..<length rest])
       in case ks of
            [] \<Rightarrow> None
          | k # _ \<Rightarrow> Some (take k rest, drop (k + 8) rest))"

section \<open>sendMessageStream: the parts of the outgoing message (services/gemini.ts)\<close>

definition sendMessageStream_parts :: "string \<Rightarrow> string option \<Rightarrow> part list" where
  "sendMessageStream_parts message img =
    (if truthy_text img then
       (case data_url_match (or_empty img) of
          Some (m1, m2) \<Rightarrow>
            let mimeType = (if m1 = ''application/octet-stream'' then ''image/jpeg'' else m1)
            in [text_part message, image_part mimeType m2]
        | None \<Rightarrow> [text_part message])
     else [text_part message])"

section \<open>handleSend: one turn of the conversation\<close>

text \<open>Decimal rendering of a clock reading inside a template literal.\<close>

fun number_toString :: "nat \<Rightarrow> string" where
  "number_toString n =
     (if n < 10 then [char_of (48 + n)]
      else number_toString (n div 10) @ [char_of (48 + n mod 10)])"

declare number_toString.simps [simp del]

text \<open>
  The stream returned by the transport is a finite list of chunks that either ends or
  raises; a failure of \<open>sendMessageStream\<close> itself is a stream that raises before its
  first chunk. The readings of \<open>Date.now()\<close> are inputs.
\<close>

datatype stream_end = Completes | Raises

record clock =
  now_user_id :: nat
  now_user_ts :: nat
  now_model_id :: nat
  now_error_id :: nat
  now_error_ts :: nat

record chat_state =
  messages :: "chat_message list"
  isLoading :: bool

definition newUserMessage :: "string \<Rightarrow> string option \<Rightarrow> clock \<Rightarrow> chat_message" where
  "newUserMessage txt img clk =
    (let userPart = text_part txt;
         imagePart =
           (if truthy_text img then
              (case data_url_match (or_empty img) of
                 Some (m1, m2) \<Rightarrow>
                   Some (image_part
                     (if m1 = ''application/octet-stream'' then ''image/jpeg'' else m1) m2)
               | None \<Rightarrow> None)
            else None)
     in \<lparr>m_id = ''user-'' @ number_toString (now_user_id clk), m_role = User,
         m_parts = (case imagePart of Some ip \<Rightarrow> [ip, userPart] | None \<Rightarrow> [userPart]),
         m_timestamp = now_user_ts clk\<rparr>)"

definition errorMessage :: "clock \<Rightarrow> chat_message" where
  "errorMessage clk =
     \<lparr>m_id = ''error-'' @ number_toString (now_error_id clk), m_role = Model,
      m_parts = [text_part ''I encountered an error. Please try again.''],
      m_timestamp = now_error_ts clk\<rparr>"

definition modelMessageId :: "clock \<Rightarrow> string" where
  "modelMessageId clk = ''model-'' @ number_toString (now_model_id clk)"

definition run_stream ::
  "string \<Rightarrow> chat_message list \<Rightarrow> chunk list \<Rightarrow> part list \<times> chat_message list" where
  "run_stream mid msgs chunks = foldl (process_chunk mid) ([], msgs) chunks"

definition handleSend ::
  "chat_state \<Rightarrow> string \<Rightarrow> string option \<Rightarrow> clock \<Rightarrow> chunk list \<Rightarrow> stream_end \<Rightarrow> chat_state" where
  "handleSend st txt img clk chunks ending =
    (if isLoading st then st
     else
       let msgs1 = messages st @ [newUserMessage txt img clk];
           msgs2 = snd (run_stream (modelMessageId clk) msgs1 chunks);
           msgs3 = (case ending of
                      Completes \<Rightarrow> msgs2
                    | Raises \<Rightarrow> msgs2 @ [errorMessage clk])
       in \<lparr>messages = msgs3, isLoading = False\<rparr>)"

section \<open>Kinds and the properties stated about them\<close>

text \<open>
  The kind of a part is the branch \<open>renderPart\<close> takes for it. Text and Thought are the
  kinds whose neighbours are expected to be merged; \<open>no_adjacent_mergeable\<close> says that
  no two neighbours of a list have the same kind of these two. \<open>populated\<close> counts
  the fields of a part that are present.
\<close>

datatype kind = KThought | KExecutableCode | KCodeExecutionResult | KText | KInlineImage | KUnknown

fun kind_of :: "block \<Rightarrow> kind" where
  "kind_of (Thought _) = KThought"
| "kind_of (ExecutableCode _ _) = KExecutableCode"
| "kind_of (CodeExecutionResult _ _) = KCodeExecutionResult"
| "kind_of (Text _) = KText"
| "kind_of (InlineImage _ _) = KInlineImage"
| "kind_of Unknown = KUnknown"

definition classify :: "part \<Rightarrow> kind" where
  "classify p = kind_of (renderPart p)"

definition mergeable :: "kind \<Rightarrow> bool" where
  "mergeable k = (k = KText \<or> k = KThought)"

fun no_adjacent_mergeable :: "kind list \<Rightarrow> bool" where
  "no_adjacent_mergeable [] = True"
| "no_adjacent_mergeable [a] = True"
| "no_adjacent_mergeable (a # b # ks) =
     (\<not> (a = b \<and> mergeable a) \<and> no_adjacent_mergeable (b # ks))"

definition populated :: "part \<Rightarrow> nat" where
  "populated p =
     (if p_text p \<noteq> None then 1 else 0) + (if p_thought p \<noteq> Absent then 1 else 0)
     + (if p_executableCode p \<noteq> None then 1 else 0)
     + (if p_codeExecutionResult p \<noteq> None then 1 else 0)
     + (if p_inlineData p \<noteq> None then 1 else 0)"

section \<open>Derived descriptions of a stream and of the pattern\<close>

text \<open>
  \<open>chunk_parts\<close> lists the parts of all chunks of a stream in order of arrival, and
  \<open>update_times\<close> the clock readings of the chunks that carry parts.
  \<open>matches_data_url\<close> is the pattern \<open>data:<mimeType>;base64,<payload>\<close> read as a
  statement about the string: some non-empty mime type and payload without line
  terminators make up the string.
\<close>

definition chunk_parts :: "chunk list \<Rightarrow> part list" where
  "chunk_parts chunks = concat (map (\<lambda>c. case fst c of None \<Rightarrow> [] | Some ps \<Rightarrow> ps) chunks)"

definition update_times :: "chunk list \<Rightarrow> nat list" where
  "update_times chunks = map snd (filter (\<lambda>c. fst c \<noteq> None) chunks)"

definition matches_data_url :: "string \<Rightarrow> bool" where
  "matches_data_url s =
     (\<exists>m p. m \<noteq> [] \<and> p \<noteq> [] \<and> \<not> list_ex is_line_terminator (m @ p)
        \<and> s = ''data:'' @ m @ '';base64,'' @ p)"

section \<open>Auxiliary facts\<close>

lemmas part_defs =
  text_part_def thought_part_def code_part_def result_part_def image_part_def empty_part_def

lemmas js_defs = truthy_text_def truthy_obj_def or_empty_def

lemmas render_defs = renderPart_def isThought_def thoughtContent_def trim_def is_js_space_def

lemmas acc_defs = accumulate_def merge_part_def isSameType_def

subsection \<open>Classification\<close>

lemma classify_cases:
  "classify p =
     (if p_thought p = Flag True \<or> (\<exists>s. p_thought p = Str s) then KThought
      else if p_executableCode p \<noteq> None then KExecutableCode
      else if p_codeExecutionResult p \<noteq> None then KCodeExecutionResult
      else if truthy_text (p_text p) then KText
      else if p_inlineData p \<noteq> None then KInlineImage
      else KUnknown)"
  by (auto simp: classify_def renderPart_def isThought_def split: js_thought.splits option.splits)

subsection \<open>What the merge branch does for non-empty text\<close>

text \<open>
  When the last accumulated part and the incoming part are both classified Text, the
  incoming text is appended to the last part and no part is added.
\<close>

lemma merge_part_text_text:
  assumes "classify l = KText" and "classify f = KText"
  shows "merge_part (xs @ [l]) f =
           xs @ [l\<lparr>p_text := Some (or_empty (p_text l) @ or_empty (p_text f))\<rparr>]"
proof -
  have l: "truthy_text (p_text l)" "\<not> truthy_thought (p_thought l)" "p_executableCode l = None"
    using assms(1) by (cases "p_thought l"; auto simp: classify_cases split: if_splits)+
  have f: "truthy_text (p_text f)" "\<not> truthy_thought (p_thought f)" "p_executableCode f = None"
    using assms(2) by (cases "p_thought f"; auto simp: classify_cases split: if_splits)+
  from l f have "isSameType l f"
    by (simp add: isSameType_def truthy_obj_def)
  with f(1) show ?thesis
    by (simp add: merge_part_def)
qed

subsection \<open>The conversation after a stream\<close>

lemma applyTurn_append:
  "msgs = [] \<or> m_id (last msgs) \<noteq> mid \<Longrightarrow>
   applyTurn msgs mid ps t = msgs @ [\<lparr>m_id = mid, m_role = Model, m_parts = ps, m_timestamp = t\<rparr>]"
  by (auto simp: applyTurn_def Let_def)

lemma applyTurn_replace:
  "m_id m = mid \<Longrightarrow>
   applyTurn (msgs @ [m]) mid ps t =
     msgs @ [\<lparr>m_id = mid, m_role = Model, m_parts = ps, m_timestamp = m_timestamp m\<rparr>]"
  by (simp add: applyTurn_def Let_def)

lemma chunk_parts_snoc:
  "chunk_parts (cs @ [c]) = chunk_parts cs @ (case fst c of None \<Rightarrow> [] | Some ps \<Rightarrow> ps)"
  by (simp add: chunk_parts_def)

lemma update_times_snoc:
  "update_times (cs @ [c]) = update_times cs @ (if fst c = None then [] else [snd c])"
  by (simp add: update_times_def)

lemma run_stream_snoc:
  "run_stream mid msgs (cs @ [c]) = process_chunk mid (run_stream mid msgs cs) c"
  by (simp add: run_stream_def)

lemma run_stream_eq:
  assumes "msgs = [] \<or> m_id (last msgs) \<noteq> mid"
  shows "run_stream mid msgs chunks =
     (accumulate [] (chunk_parts chunks),
      case update_times chunks of
        [] \<Rightarrow> msgs
      | t # _ \<Rightarrow> msgs @ [\<lparr>m_id = mid, m_role = Model,
                          m_parts = accumulate [] (chunk_parts chunks), m_timestamp = t\<rparr>])"
proof (induction chunks rule: rev_induct)
  case Nil
  show ?case by (simp add: run_stream_def chunk_parts_def update_times_def accumulate_def)
next
  case (snoc c cs)
  show ?case
  proof (cases "fst c")
    case None
    with snoc show ?thesis
      by (simp add: run_stream_snoc process_chunk_def chunk_parts_snoc update_times_snoc
          split: list.split)
  next
    case (Some ps)
    have acc: "accumulate (accumulate [] (chunk_parts cs)) ps = accumulate [] (chunk_parts cs @ ps)"
      by (simp add: accumulate_def)
    show ?thesis
    proof (cases "update_times cs")
      case Nil
      with snoc Some acc assms show ?thesis
        by (simp add: run_stream_snoc process_chunk_def chunk_parts_snoc update_times_snoc
            applyTurn_append Let_def)
    next
      case (Cons t ts)
      with snoc Some acc show ?thesis
        by (simp add: run_stream_snoc process_chunk_def chunk_parts_snoc update_times_snoc
            applyTurn_replace Let_def)
    qed
  qed
qed

lemma user_id_not_model_id: "m_id (newUserMessage txt img clk) \<noteq> modelMessageId clk'"
  by (simp add: newUserMessage_def modelMessageId_def Let_def)

lemma run_stream_turn:
  "run_stream (modelMessageId clk) (msgs @ [newUserMessage txt img clk]) chunks =
     (accumulate [] (chunk_parts chunks),
      case update_times chunks of
        [] \<Rightarrow> msgs @ [newUserMessage txt img clk]
      | t # _ \<Rightarrow> msgs @ [newUserMessage txt img clk] @
                 [\<lparr>m_id = modelMessageId clk, m_role = Model,
                   m_parts = accumulate [] (chunk_parts chunks), m_timestamp = t\<rparr>])"
  using run_stream_eq [of "msgs @ [newUserMessage txt img clk]" "modelMessageId clk" chunks]
  by (simp add: user_id_not_model_id split: list.split)

subsection \<open>The data-URL pattern\<close>

lemma data_url_match_sound:
  assumes "data_url_match s = Some (m, p)"
  shows "s = ''data:'' @ m @ '';base64,'' @ p \<and> m \<noteq> [] \<and> p \<noteq> []
         \<and> \<not> list_ex is_line_terminator s"
proof -
  define rest where "rest = drop 5 s"
  from assms have pre: "take 5 s = ''data:''" and nl: "\<not> list_ex is_line_terminator s"
    by (auto simp: data_url_match_def split: if_splits)
  from assms pre nl obtain k ks where
    ks: "filter (\<lambda>k. take 8 (drop k rest) = '';base64,'' \<and> k + 8 < length rest)
           (rev [1..<length rest]) = k # ks"
    and m: "m = take k rest" and p: "p = drop (k + 8) rest"
    by (auto simp: data_url_match_def Let_def rest_def split: list.splits)
  have "k \<in> set (filter (\<lambda>k. take 8 (drop k rest) = '';base64,'' \<and> k + 8 < length rest)
           (rev [1..<length rest]))"
    unfolding ks by simp
  then have k: "1 \<le> k" "k + 8 < length rest" "take 8 (drop k rest) = '';base64,''"
    by auto
  have "rest = take k rest @ drop k rest"
    by (simp only: append_take_drop_id)
  also have "drop k rest = take 8 (drop k rest) @ drop 8 (drop k rest)"
    by (simp only: append_take_drop_id)
  finally have "rest = m @ '';base64,'' @ p"
    using k(3) by (simp add: m p add.commute)
  moreover have "s = take 5 s @ rest"
    by (simp add: rest_def)
  ultimately have "s = ''data:'' @ m @ '';base64,'' @ p"
    using pre by simp
  moreover have "m \<noteq> []" "p \<noteq> []"
    using k by (auto simp: m p)
  ultimately show ?thesis using nl by blast
qed

lemma data_url_match_complete:
  assumes "m \<noteq> []" and "p \<noteq> []" and "\<not> list_ex is_line_terminator (m @ p)"
  shows "data_url_match (''data:'' @ m @ '';base64,'' @ p) \<noteq> None"
proof -
  define s where "s = ''data:'' @ m @ '';base64,'' @ p"
  define rest where "rest = drop 5 s"
  have t5: "take 5 s = ''data:''" and d5: "rest = m @ '';base64,'' @ p"
    by (simp_all add: s_def rest_def)
  have nl: "\<not> list_ex is_line_terminator s"
    using assms(3) by (simp add: s_def is_line_terminator_def)
  let ?P = "\<lambda>k. take 8 (drop k rest) = '';base64,'' \<and> k + 8 < length rest"
  have "?P (length m)"
    using assms(2) by (simp add: d5)
  moreover have "length m \<in> set (rev [1..<length rest])"
    using assms(1) by (simp add: d5 Suc_le_eq)
  ultimately have "length m \<in> set (filter ?P (rev [1..<length rest]))"
    by simp
  then have "filter ?P (rev [1..<length rest]) \<noteq> []"
    by (metis empty_iff list.set(1))
  then obtain k ks where "filter ?P (rev [1..<length rest]) = k # ks"
    by (meson neq_Nil_conv)
  with t5 nl have "data_url_match s = Some (take k rest, drop (k + 8) rest)"
    by (simp add: data_url_match_def Let_def rest_def)
  then show ?thesis
    by (simp add: s_def)
qed

lemma data_url_match_None_iff: "(data_url_match s = None) = (\<not> matches_data_url s)"
proof
  assume n: "data_url_match s = None"
  show "\<not> matches_data_url s"
  proof
    assume "matches_data_url s"
    then obtain m p where "m \<noteq> []" "p \<noteq> []" "\<not> list_ex is_line_terminator (m @ p)"
      "s = ''data:'' @ m @ '';base64,'' @ p"
      unfolding matches_data_url_def by blast
    with data_url_match_complete [of m p] n show False by simp
  qed
next
  assume nm: "\<not> matches_data_url s"
  show "data_url_match s = None"
  proof (cases "data_url_match s")
    case None
    then show ?thesis .
  next
    case (Some mp)
    obtain m p where mp: "mp = (m, p)" by (cases mp)
    from Some mp have "data_url_match s = Some (m, p)" by simp
    from data_url_match_sound [OF this]
    have "m \<noteq> [] \<and> p \<noteq> [] \<and> \<not> list_ex is_line_terminator (m @ p)
        \<and> s = ''data:'' @ m @ '';base64,'' @ p"
      by auto
    then have "matches_data_url s"
      unfolding matches_data_url_def by blast
    with nm show ?thesis by simp
  qed
qed

lemma filter_rev_upt_max:
  "filter P (rev [a..<b]) = k # ks \<Longrightarrow> a \<le> j \<Longrightarrow> j < b \<Longrightarrow> P j \<Longrightarrow> j \<le> k"
proof (induction b)
  case 0
  then show ?case by simp
next
  case (Suc b)
  show ?case
  proof (cases "a \<le> b \<and> P b")
    case True
    with Suc.prems show ?thesis by auto
  next
    case False
    with Suc.prems have "filter P (rev [a..<b]) = k # ks" "j < b"
      by (auto split: if_splits simp: less_Suc_eq)
    with Suc.IH Suc.prems show ?thesis by simp
  qed
qed

lemma data_url_match_greedy:
  assumes "data_url_match s = Some (m, p)"
    and "s = ''data:'' @ m' @ '';base64,'' @ p'" and "m' \<noteq> []" and "p' \<noteq> []"
  shows "length m' \<le> length m"
proof -
  define rest where "rest = drop 5 s"
  let ?P = "\<lambda>k. take 8 (drop k rest) = '';base64,'' \<and> k + 8 < length rest"
  have d5: "rest = m' @ '';base64,'' @ p'"
    by (simp add: rest_def assms(2))
  from assms(1) obtain k ks where
    ks: "filter ?P (rev [1..<length rest]) = k # ks" and m: "m = take k rest"
    by (auto simp: data_url_match_def Let_def rest_def split: if_splits list.splits)
  have "k \<in> set (filter ?P (rev [1..<length rest]))"
    unfolding ks by simp
  then have len: "length m = k"
    by (auto simp: m)
  have "?P (length m')"
    using assms(4) by (simp add: d5)
  moreover have "1 \<le> length m'" "length m' < length rest"
    using assms(3) by (simp_all add: d5 Suc_le_eq)
  ultimately have "length m' \<le> k"
    using filter_rev_upt_max [OF ks] by blast
  with len show ?thesis by simp
qed

text \<open>
  With the thought text carried in \<open>text\<close> under \<open>thought: true\<close>, the two thought
  fragments of the end-to-end scenario are concatenated.
\<close>

lemma end_to_end_flagged_thoughts:
  "map renderPart (accumulate []
     [(thought_part (Flag True))\<lparr>p_text := Some ''**Plan**: crop''\<rparr>,
      (thought_part (Flag True))\<lparr>p_text := Some '' the image''\<rparr>,
      code_part ''python'' ''crop(img)'', result_part ''OK'' ''done'',
      text_part ''Here is the result.''])
   = [Thought ''**Plan**: crop the image'', ExecutableCode ''python'' ''crop(img)'',
      CodeExecutionResult ''OK'' ''done'', Text ''Here is the result.'']"
  by (simp add: part_defs js_defs render_defs acc_defs)

section \<open>The claims\<close>

text \<open>
  C1. The end-to-end scenario, evaluated on the accumulation loop: the fragments
  thought "**Plan**: crop", thought " the image", executable code, execution result and
  text, fed from the empty list, leave four parts. The second thought fragment is
  merged into the first without its string being appended, so the Thought block holds
  "**Plan**: crop" and not "**Plan**: crop the image".
\<close>

theorem C1_end_to_end_code:
  "accumulate []
     [thought_part (Str ''**Plan**: crop''), thought_part (Str '' the image''),
      code_part ''python'' ''crop(img)'', result_part ''OK'' ''done'',
      text_part ''Here is the result.'']
   = [thought_part (Str ''**Plan**: crop''), code_part ''python'' ''crop(img)'',
      result_part ''OK'' ''done'', text_part ''Here is the result.'']
  \<and> map renderPart
      [thought_part (Str ''**Plan**: crop''), code_part ''python'' ''crop(img)'',
       result_part ''OK'' ''done'', text_part ''Here is the result.'']
   = [Thought ''**Plan**: crop'', ExecutableCode ''python'' ''crop(img)'',
      CodeExecutionResult ''OK'' ''done'', Text ''Here is the result.'']"
  by (simp add: part_defs js_defs render_defs acc_defs)

text \<open>
  C2. The accumulation loop on the fragments text "a", text "" and text "b", fed from the
  empty list: the fragment with empty text is pushed as a part of its own because
  \<open>incoming.text\<close> is falsy, and "b" is pushed as well because the text of the last part
  is then falsy. Three parts result instead of one; the middle one is rendered as
  nothing, so the two blocks that are displayed are neighbouring Text blocks.
\<close>

theorem C2_empty_text_not_merged:
  "accumulate [] [text_part ''a'', text_part [], text_part ''b'']
     = [text_part ''a'', text_part [], text_part ''b'']
   \<and> map renderPart (accumulate [] [text_part ''a'', text_part [], text_part ''b''])
     = [Text ''a'', Unknown, Text ''b'']
   \<and> \<not> no_adjacent_mergeable
        (filter (\<lambda>k. k \<noteq> KUnknown)
          (map classify (accumulate [] [text_part ''a'', text_part [], text_part ''b''])))"
  by (simp add: part_defs js_defs render_defs acc_defs classify_def mergeable_def)

text \<open>
  C3. Feeding the text fragments "Hel", "lo " and "world" one after the other to the
  accumulator, starting from the empty list, leaves exactly one part; its text is
  "Hello world" and it is classified as a Text block with that content.
\<close>

theorem C3_concatenation:
  "accumulate [] [text_part ''Hel'', text_part ''lo '', text_part ''world'']
     = [text_part ''Hello world'']
   \<and> accumulate (accumulate (accumulate [] [text_part ''Hel'']) [text_part ''lo ''])
        [text_part ''world''] = [text_part ''Hello world'']
   \<and> map renderPart [text_part ''Hello world''] = [Text ''Hello world'']"
  by (simp add: accumulate_def merge_part_def isSameType_def text_part_def empty_part_def
      truthy_text_def truthy_obj_def or_empty_def renderPart_def isThought_def)

text \<open>
  C4 (counterexample). A fragment whose only field is the empty text, and one whose only
  field is \<open>thought: false\<close>, are rendered as nothing.
\<close>

theorem C4_counterexample:
  "populated (text_part []) = 1 \<and> classify (text_part []) = KUnknown
   \<and> populated (thought_part (Flag False)) = 1
   \<and> classify (thought_part (Flag False)) = KUnknown"
  by (simp add: part_defs populated_def classify_cases truthy_text_def)

text \<open>
  C4 (amended). For every fragment with exactly one of the five fields present, where a
  present text is not empty and a present thought is not \<open>false\<close>, the classification
  is the kind of the present field and never Unknown.
\<close>

theorem C4_classification:
  assumes "populated p = 1" and "p_text p \<noteq> Some []" and "p_thought p \<noteq> Flag False"
  shows "classify p \<noteq> KUnknown
     \<and> (p_text p \<noteq> None \<longrightarrow> classify p = KText)
     \<and> (p_thought p \<noteq> Absent \<longrightarrow> classify p = KThought)
     \<and> (p_executableCode p \<noteq> None \<longrightarrow> classify p = KExecutableCode)
     \<and> (p_codeExecutionResult p \<noteq> None \<longrightarrow> classify p = KCodeExecutionResult)
     \<and> (p_inlineData p \<noteq> None \<longrightarrow> classify p = KInlineImage)"
proof (cases "p_thought p")
  case Absent
  with assms show ?thesis
    by (auto simp: classify_cases populated_def truthy_text_def split: if_splits option.splits)
next
  case (Flag b)
  with assms show ?thesis
    by (auto simp: classify_cases populated_def truthy_text_def split: if_splits option.splits)
next
  case (Str s)
  with assms show ?thesis
    by (auto simp: classify_cases populated_def truthy_text_def split: if_splits option.splits)
qed

text \<open>
  C4 (witness). The fragment whose only field is the text "hi" satisfies the three
  hypotheses and is classified Text.
\<close>

theorem C4_witness:
  "populated (text_part ''hi'') = 1 \<and> p_text (text_part ''hi'') \<noteq> Some []
   \<and> p_thought (text_part ''hi'') \<noteq> Flag False
   \<and> classify (text_part ''hi'') = KText"
proof -
  have h: "populated (text_part ''hi'') = 1" "p_text (text_part ''hi'') \<noteq> Some []"
    "p_thought (text_part ''hi'') \<noteq> Flag False"
    by (simp_all add: part_defs populated_def)
  have t: "p_text (text_part ''hi'') \<noteq> None"
    by (simp add: part_defs)
  from C4_classification [OF h] t have "classify (text_part ''hi'') = KText"
    by blast
  with h show ?thesis by blast
qed

text \<open>
  C5 (counterexample). A fragment whose \<open>thought\<close> is the empty string is rendered as a
  Thought although the value is neither truthy nor a non-empty string; and the content of
  the Thought for \<open>thought: " the image"\<close> is "the image", not the value itself.
\<close>

theorem C5_counterexample:
  "renderPart (thought_part (Str [])) = Thought []
   \<and> \<not> truthy_thought (p_thought (thought_part (Str [])))
   \<and> renderPart (thought_part (Str '' the image'')) = Thought ''the image''
   \<and> renderPart (thought_part (Str '' the image'')) \<noteq> Thought '' the image''"
  by (simp add: part_defs js_defs render_defs)

text \<open>
  C5 (amended). A fragment is rendered as a Thought exactly when its \<open>thought\<close> is
  \<open>true\<close> or a string (the empty string included). The content is the \<open>thought\<close> value
  when it is a string, else the fragment's text (empty when absent), in both cases with
  the white space at both ends removed.
\<close>

theorem C5_thought:
  "(renderPart p = Thought c) =
     ((p_thought p = Flag True \<and> c = trim (or_empty (p_text p)))
      \<or> (\<exists>s. p_thought p = Str s \<and> c = trim s))"
  by (auto simp: renderPart_def isThought_def thoughtContent_def split: js_thought.splits option.splits)

text \<open>
  C6. When the last message has the given id, the update replaces it by a model message
  with the new parts and the old timestamp, and the length is unchanged. Otherwise it
  appends a model message with that id and the current clock reading, and a second
  update with the same id then replaces that message, so the two updates together append
  one message. A second update with the same id never changes the length.
\<close>

theorem C6_applyTurn:
  "(prev \<noteq> [] \<and> m_id (last prev) = mid \<longrightarrow>
      applyTurn prev mid ps now =
        butlast prev @ [\<lparr>m_id = mid, m_role = Model, m_parts = ps,
                         m_timestamp = m_timestamp (last prev)\<rparr>]
      \<and> length (applyTurn prev mid ps now) = length prev)
   \<and> (\<not> (prev \<noteq> [] \<and> m_id (last prev) = mid) \<longrightarrow>
      applyTurn prev mid ps now =
        prev @ [\<lparr>m_id = mid, m_role = Model, m_parts = ps, m_timestamp = now\<rparr>]
      \<and> applyTurn (applyTurn prev mid ps now) mid ps' now' =
        prev @ [\<lparr>m_id = mid, m_role = Model, m_parts = ps', m_timestamp = now\<rparr>])
   \<and> length (applyTurn (applyTurn prev mid ps now) mid ps' now')
       = length (applyTurn prev mid ps now)"
  by (auto simp: applyTurn_def Let_def)

text \<open>
  C6 (witness). From a conversation of one user message, two updates with the id
  "model-3" leave two messages, the second with the parts of the second update and the
  timestamp of the first; from a conversation ending in "model-3" the update replaces.
\<close>

theorem C6_witness:
  "applyTurn (applyTurn
       [\<lparr>m_id = ''user-1'', m_role = User, m_parts = [text_part ''hi''], m_timestamp = 2\<rparr>]
       ''model-3'' [text_part ''a''] 4) ''model-3'' [text_part ''ab''] 5
   = [\<lparr>m_id = ''user-1'', m_role = User, m_parts = [text_part ''hi''], m_timestamp = 2\<rparr>,
      \<lparr>m_id = ''model-3'', m_role = Model, m_parts = [text_part ''ab''], m_timestamp = 4\<rparr>]
   \<and> applyTurn
       [\<lparr>m_id = ''model-3'', m_role = Model, m_parts = [text_part ''a''], m_timestamp = 4\<rparr>]
       ''model-3'' [text_part ''ab''] 5
   = [\<lparr>m_id = ''model-3'', m_role = Model, m_parts = [text_part ''ab''], m_timestamp = 4\<rparr>]"
proof -
  let ?u = "\<lparr>m_id = ''user-1'', m_role = User, m_parts = [text_part ''hi''], m_timestamp = 2\<rparr>"
  let ?m = "\<lparr>m_id = ''model-3'', m_role = Model, m_parts = [text_part ''a''], m_timestamp = 4\<rparr>"
  have h1: "\<not> ([?u] \<noteq> [] \<and> m_id (last [?u]) = ''model-3'')"
    by simp
  have h2: "[?m] \<noteq> [] \<and> m_id (last [?m]) = ''model-3''"
    by simp
  from C6_applyTurn [of "[?u]" "''model-3''" "[text_part ''a'']" 4 "[text_part ''ab'']" 5] h1
  have a: "applyTurn (applyTurn [?u] ''model-3'' [text_part ''a''] 4) ''model-3''
             [text_part ''ab''] 5
           = [?u] @ [\<lparr>m_id = ''model-3'', m_role = Model, m_parts = [text_part ''ab''],
                       m_timestamp = 4\<rparr>]"
    by blast
  from C6_applyTurn [of "[?m]" "''model-3''" "[text_part ''ab'']" 5 "[]" 0] h2
  have b: "applyTurn [?m] ''model-3'' [text_part ''ab''] 5
           = butlast [?m] @ [\<lparr>m_id = ''model-3'', m_role = Model, m_parts = [text_part ''ab''],
                       m_timestamp = m_timestamp (last [?m])\<rparr>]"
    by blast
  show ?thesis
    unfolding a b by simp
qed

text \<open>
  C7. In a turn that starts (the interface is not loading) and whose stream raises, the
  conversation at the end is the conversation reached when the stream stopped followed by
  one message: a model message whose only part is rendered as the Text
  "I encountered an error. Please try again.". The messages present before the turn and
  the user message of the turn are an unchanged prefix, nothing of the stream is
  processed again, and the interface is no longer loading.
\<close>

theorem C7_transport_error:
  assumes "\<not> isLoading st"
  shows "messages (handleSend st txt img clk chunks Raises)
           = messages (handleSend st txt img clk chunks Completes) @ [errorMessage clk]
     \<and> m_role (errorMessage clk) = Model
     \<and> map renderPart (m_parts (errorMessage clk))
           = [Text ''I encountered an error. Please try again.'']
     \<and> take (Suc (length (messages st))) (messages (handleSend st txt img clk chunks Raises))
           = messages st @ [newUserMessage txt img clk]
     \<and> \<not> isLoading (handleSend st txt img clk chunks Raises)"
  using assms
  by (simp add: handleSend_def Let_def run_stream_turn errorMessage_def text_part_def
      empty_part_def renderPart_def isThought_def truthy_text_def or_empty_def
      split: list.split)

text \<open>
  C7 (witness). A turn on the empty conversation whose stream raises before its first
  chunk.
\<close>

theorem C7_witness:
  "\<not> isLoading \<lparr>messages = [], isLoading = False\<rparr>
   \<and> messages (handleSend \<lparr>messages = [], isLoading = False\<rparr> ''hi'' None
        \<lparr>now_user_id = 1, now_user_ts = 2, now_model_id = 3, now_error_id = 9,
         now_error_ts = 10\<rparr> [] Raises)
     = messages (handleSend \<lparr>messages = [], isLoading = False\<rparr> ''hi'' None
        \<lparr>now_user_id = 1, now_user_ts = 2, now_model_id = 3, now_error_id = 9,
         now_error_ts = 10\<rparr> [] Completes)
       @ [errorMessage \<lparr>now_user_id = 1, now_user_ts = 2, now_model_id = 3, now_error_id = 9,
         now_error_ts = 10\<rparr>]"
proof -
  have h: "\<not> isLoading \<lparr>messages = [], isLoading = False\<rparr>" by simp
  from C7_transport_error [OF h] h show ?thesis by blast
qed

text \<open>
  C8. When the image string does not match the data-URL pattern, the outgoing message
  has one part, whose only field is the text. When the match gives the mime type
  application/octet-stream, the string matches the pattern and the outgoing message has
  two parts: the text, and a part whose only field is inline data with mime type
  image/jpeg and the matched payload, which is rendered as an image of that type.
\<close>

theorem C8_image_attachment:
  "(\<not> matches_data_url s \<longrightarrow>
      sendMessageStream_parts message (Some s)
        = [\<lparr>p_text = Some message, p_thought = Absent, p_executableCode = None,
            p_codeExecutionResult = None, p_inlineData = None\<rparr>])
   \<and> (data_url_match s = Some (''application/octet-stream'', d) \<longrightarrow>
        matches_data_url s
        \<and> sendMessageStream_parts message (Some s)
            = [\<lparr>p_text = Some message, p_thought = Absent, p_executableCode = None,
                p_codeExecutionResult = None, p_inlineData = None\<rparr>,
               \<lparr>p_text = None, p_thought = Absent, p_executableCode = None,
                p_codeExecutionResult = None,
                p_inlineData = Some \<lparr>d_mimeType = ''image/jpeg'', d_data = d\<rparr>\<rparr>]
        \<and> map renderPart (tl (sendMessageStream_parts message (Some s)))
            = [InlineImage ''image/jpeg'' d])"
proof (intro conjI impI)
  assume "\<not> matches_data_url s"
  then have "data_url_match s = None" by (simp add: data_url_match_None_iff)
  then show "sendMessageStream_parts message (Some s)
        = [\<lparr>p_text = Some message, p_thought = Absent, p_executableCode = None,
            p_codeExecutionResult = None, p_inlineData = None\<rparr>]"
    by (simp add: sendMessageStream_parts_def or_empty_def part_defs)
next
  assume a: "data_url_match s = Some (''application/octet-stream'', d)"
  then show "matches_data_url s"
    using data_url_match_None_iff [of s] by simp
  from data_url_match_sound [OF a] have "s \<noteq> []" by auto
  with a show parts: "sendMessageStream_parts message (Some s)
            = [\<lparr>p_text = Some message, p_thought = Absent, p_executableCode = None,
                p_codeExecutionResult = None, p_inlineData = None\<rparr>,
               \<lparr>p_text = None, p_thought = Absent, p_executableCode = None,
                p_codeExecutionResult = None,
                p_inlineData = Some \<lparr>d_mimeType = ''image/jpeg'', d_data = d\<rparr>\<rparr>]"
    by (simp add: sendMessageStream_parts_def or_empty_def truthy_text_def part_defs)
  show "map renderPart (tl (sendMessageStream_parts message (Some s)))
            = [InlineImage ''image/jpeg'' d]"
    unfolding parts by (simp add: renderPart_def isThought_def truthy_text_def)
qed

text \<open>
  C8 (witness). The string "hello" does not match and only the text is sent; a data URL
  with mime type application/octet-stream is sent as inline data of type image/jpeg.
\<close>

theorem C8_witness:
  "\<not> matches_data_url ''hello''
   \<and> sendMessageStream_parts ''describe'' (Some ''hello'')
       = [\<lparr>p_text = Some ''describe'', p_thought = Absent, p_executableCode = None,
           p_codeExecutionResult = None, p_inlineData = None\<rparr>]
   \<and> data_url_match ''data:application/octet-stream;base64,AAAA''
       = Some (''application/octet-stream'', ''AAAA'')
   \<and> sendMessageStream_parts ''describe'' (Some ''data:application/octet-stream;base64,AAAA'')
       = [\<lparr>p_text = Some ''describe'', p_thought = Absent, p_executableCode = None,
           p_codeExecutionResult = None, p_inlineData = None\<rparr>,
          \<lparr>p_text = None, p_thought = Absent, p_executableCode = None,
           p_codeExecutionResult = None,
           p_inlineData = Some \<lparr>d_mimeType = ''image/jpeg'', d_data = ''AAAA''\<rparr>\<rparr>]"
proof -
  have "data_url_match ''hello'' = None"
    by (simp add: data_url_match_def)
  then have h1: "\<not> matches_data_url ''hello''"
    by (simp add: data_url_match_None_iff)
  have h2: "data_url_match ''data:application/octet-stream;base64,AAAA''
       = Some (''application/octet-stream'', ''AAAA'')"
    by code_simp
  from C8_image_attachment [where s = "''hello''" and message = "''describe''"] h1
  have "sendMessageStream_parts ''describe'' (Some ''hello'')
       = [\<lparr>p_text = Some ''describe'', p_thought = Absent, p_executableCode = None,
           p_codeExecutionResult = None, p_inlineData = None\<rparr>]"
    by blast
  moreover from
    C8_image_attachment [where s = "''data:application/octet-stream;base64,AAAA''"
      and message = "''describe''" and d = "''AAAA''"] h2
  have "sendMessageStream_parts ''describe'' (Some ''data:application/octet-stream;base64,AAAA'')
       = [\<lparr>p_text = Some ''describe'', p_thought = Absent, p_executableCode = None,
           p_codeExecutionResult = None, p_inlineData = None\<rparr>,
          \<lparr>p_text = None, p_thought = Absent, p_executableCode = None,
           p_codeExecutionResult = None,
           p_inlineData = Some \<lparr>d_mimeType = ''image/jpeg'', d_data = ''AAAA''\<rparr>\<rparr>]"
    by blast
  ultimately show ?thesis using h1 h2 by blast
qed

text \<open>
  C9. In a turn that starts and whose stream raises after at least one chunk with parts,
  the conversation ends with the user message, the model message holding the parts
  accumulated so far (timestamp of the first such chunk), and the error message. Removing
  the error message gives the conversation as it was when the stream stopped. The error
  message has the id "error-" followed by the clock reading, which differs from the id of
  the model message, and both messages have the model role.
\<close>

theorem C9_partial_then_error:
  assumes "\<not> isLoading st" and "update_times chunks = t # ts"
  shows "messages (handleSend st txt img clk chunks Raises)
           = messages st @
             [newUserMessage txt img clk,
              \<lparr>m_id = modelMessageId clk, m_role = Model,
                m_parts = accumulate [] (chunk_parts chunks), m_timestamp = t\<rparr>,
              errorMessage clk]
     \<and> butlast (messages (handleSend st txt img clk chunks Raises))
           = messages (handleSend st txt img clk chunks Completes)
     \<and> m_id (errorMessage clk) = ''error-'' @ number_toString (now_error_id clk)
     \<and> m_id (errorMessage clk) \<noteq> modelMessageId clk
     \<and> m_role (errorMessage clk) = Model"
proof -
  have ids: "m_id (errorMessage clk) = ''error-'' @ number_toString (now_error_id clk)"
    "m_id (errorMessage clk) \<noteq> modelMessageId clk" "m_role (errorMessage clk) = Model"
    by (simp_all add: errorMessage_def modelMessageId_def)
  have msgs: "messages (handleSend st txt img clk chunks Raises)
           = messages st @
             [newUserMessage txt img clk,
              \<lparr>m_id = modelMessageId clk, m_role = Model,
                m_parts = accumulate [] (chunk_parts chunks), m_timestamp = t\<rparr>,
              errorMessage clk]"
    using assms by (simp add: handleSend_def Let_def run_stream_turn)
  have before: "messages (handleSend st txt img clk chunks Completes)
           = messages st @
             [newUserMessage txt img clk,
              \<lparr>m_id = modelMessageId clk, m_role = Model,
                m_parts = accumulate [] (chunk_parts chunks), m_timestamp = t\<rparr>]"
    using assms by (simp add: handleSend_def Let_def run_stream_turn)
  have "butlast (messages (handleSend st txt img clk chunks Raises))
           = messages (handleSend st txt img clk chunks Completes)"
    unfolding msgs before by (simp add: butlast_append)
  with ids msgs show ?thesis by simp
qed

text \<open>
  C9 (witness). The stream delivers "a", a chunk without parts and "b", then raises: the
  conversation holds the user message, the model message "ab" and the error message.
\<close>

theorem C9_witness:
  "\<not> isLoading \<lparr>messages = [], isLoading = False\<rparr>
   \<and> update_times [(Some [text_part ''a''], 4), (None, 5), (Some [text_part ''b''], 6)] = [4, 6]
   \<and> messages (handleSend \<lparr>messages = [], isLoading = False\<rparr> ''hi'' None
        \<lparr>now_user_id = 1, now_user_ts = 2, now_model_id = 3, now_error_id = 9,
         now_error_ts = 10\<rparr>
        [(Some [text_part ''a''], 4), (None, 5), (Some [text_part ''b''], 6)] Raises)
     = [\<lparr>m_id = ''user-1'', m_role = User, m_parts = [text_part ''hi''], m_timestamp = 2\<rparr>,
        \<lparr>m_id = ''model-3'', m_role = Model, m_parts = [text_part ''ab''], m_timestamp = 4\<rparr>,
        \<lparr>m_id = ''error-9'', m_role = Model,
          m_parts = [text_part ''I encountered an error. Please try again.''],
          m_timestamp = 10\<rparr>]"
proof -
  let ?st = "\<lparr>messages = [], isLoading = False\<rparr>"
  let ?clk = "\<lparr>now_user_id = 1, now_user_ts = 2, now_model_id = 3, now_error_id = 9,
         now_error_ts = 10\<rparr>"
  let ?chunks = "[(Some [text_part ''a''], 4), (None, 5), (Some [text_part ''b''], 6)]"
  have h1: "\<not> isLoading ?st" by simp
  have h2: "update_times ?chunks = [4, 6]"
    by (simp add: update_times_def)
  have user: "newUserMessage ''hi'' None ?clk
      = \<lparr>m_id = ''user-1'', m_role = User, m_parts = [text_part ''hi''], m_timestamp = 2\<rparr>"
    by code_simp
  have model: "modelMessageId ?clk = ''model-3''"
    by code_simp
  have err: "errorMessage ?clk
      = \<lparr>m_id = ''error-9'', m_role = Model,
          m_parts = [text_part ''I encountered an error. Please try again.''],
          m_timestamp = 10\<rparr>"
    by code_simp
  have acc: "accumulate [] (chunk_parts ?chunks) = [text_part ''ab'']"
    by (simp add: chunk_parts_def part_defs js_defs acc_defs)
  from C9_partial_then_error [of ?st ?chunks 4 "[6]" "''hi''" None ?clk, OF h1 h2]
  have "messages (handleSend ?st ''hi'' None ?clk ?chunks Raises)
      = messages ?st @
        [newUserMessage ''hi'' None ?clk,
         \<lparr>m_id = modelMessageId ?clk, m_role = Model,
           m_parts = accumulate [] (chunk_parts ?chunks), m_timestamp = 4\<rparr>,
         errorMessage ?clk]"
    by blast
  then have "messages (handleSend ?st ''hi'' None ?clk ?chunks Raises)
      = [\<lparr>m_id = ''user-1'', m_role = User, m_parts = [text_part ''hi''], m_timestamp = 2\<rparr>,
        \<lparr>m_id = ''model-3'', m_role = Model, m_parts = [text_part ''ab''], m_timestamp = 4\<rparr>,
        \<lparr>m_id = ''error-9'', m_role = Model,
          m_parts = [text_part ''I encountered an error. Please try again.''],
          m_timestamp = 10\<rparr>]"
    unfolding user model err acc by simp
  with h1 h2 show ?thesis by blast
qed

text \<open>
  C10. A chunk without parts leaves the accumulated parts and the conversation as they
  were, and a stream with such a chunk inserted anywhere has the same result as the stream
  without it.
\<close>

theorem C10_absent_parts:
  "process_chunk mid (acc, msgs) (None, t) = (acc, msgs)
   \<and> run_stream mid msgs (cs1 @ [(None, t)] @ cs2) = run_stream mid msgs (cs1 @ cs2)"
  by (simp add: process_chunk_def run_stream_def)

end
